theory Spec2Isabelle
  imports Complex_Main
begin

section \<open>Invoice generator: spreadsheet rows to invoice records to documents\<close>

text \<open>
  A shallow embedding of \<^verbatim>\<open>invoice_generator.py\<close> (class \<^verbatim>\<open>InvoiceGenerator\<close>) and of the
  download route of \<^verbatim>\<open>web_app.py\<close>.

  Conventions of the embedding:
  \<^item> a spreadsheet cell read with \<^verbatim>\<open>values_only=True\<close> is a value of type \<open>cell\<close>;
  \<^item> Python floats are idealised as exact rationals: rounding, overflow and the IEEE special
    values are left out, and a string that \<^verbatim>\<open>float()\<close> would turn into \<^verbatim>\<open>inf\<close> or \<^verbatim>\<open>nan\<close>
    stops the model with \<open>NonFinite\<close>;
  \<^item> an exception is a value \<open>Inl e\<close> of a sum type;
  \<^item> the clock, the number formatting of Python and the file system are parameters,
    collected in the record \<open>env\<close>.
\<close>

subsection \<open>Cell values and Python truthiness\<close>

datatype datetime = DateTime nat nat nat nat nat nat

datatype cell =
    CNone
  | CStr string
  | CInt int
  | CFloat rat
  | CBool bool
  | CDateTime datetime

datatype error = ValueError | TypeError | IOError | NonFinite

text \<open>\<^verbatim>\<open>bool(x)\<close>: \<^verbatim>\<open>None\<close>, the empty string, zero and \<^verbatim>\<open>False\<close> are falsy.\<close>

fun truthy :: "cell \<Rightarrow> bool" where
  "truthy CNone = False"
| "truthy (CStr s) = (s \<noteq> [])"
| "truthy (CInt n) = (n \<noteq> 0)"
| "truthy (CFloat r) = (r \<noteq> 0)"
| "truthy (CBool b) = b"
| "truthy (CDateTime d) = True"

text \<open>
  The data model of the specification: a field is a string, a number or empty. A field is
  empty when the cell holds nothing or the empty string; every other cell, the number zero
  included, holds a value.
\<close>

fun spec_non_empty :: "cell \<Rightarrow> bool" where
  "spec_non_empty CNone = False"
| "spec_non_empty (CStr s) = (s \<noteq> [])"
| "spec_non_empty (CInt n) = True"
| "spec_non_empty (CFloat r) = True"
| "spec_non_empty (CBool b) = True"
| "spec_non_empty (CDateTime d) = True"

text \<open>\<^verbatim>\<open>x or y\<close>\<close>

definition py_or :: "cell \<Rightarrow> cell \<Rightarrow> cell" where
  "py_or x y = (if truthy x then x else y)"

subsection \<open>The builtin \<^verbatim>\<open>float\<close>\<close>

definition is_digit :: "char \<Rightarrow> bool" where
  "is_digit c = (c \<in> set ''0123456789'')"

definition digit_val :: "char \<Rightarrow> nat" where
  "digit_val c = of_char c - 48"

definition is_space :: "char \<Rightarrow> bool" where
  "is_space c = (c \<in> set [CHR '' '', CHR 0x09, CHR 0x0A, CHR 0x0B, CHR 0x0C, CHR 0x0D])"

definition strip :: "string \<Rightarrow> string" where
  "strip s = rev (dropWhile is_space (rev (dropWhile is_space s)))"

definition ascii_lower :: "char \<Rightarrow> char" where
  "ascii_lower c =
     (if (65::nat) \<le> of_char c \<and> of_char c \<le> (90::nat) then char_of (of_char c + (32::nat)) else c)"

text \<open>\<^verbatim>\<open>digitpart ::= digit (["_"] digit)*\<close>\<close>

fun digitpart :: "string \<Rightarrow> bool" where
  "digitpart [] = False"
| "digitpart [c] = is_digit c"
| "digitpart (c # d # cs) =
     (is_digit c \<and> (if d = CHR ''_'' then digitpart cs else digitpart (d # cs)))"

definition nat_of_digits :: "string \<Rightarrow> nat" where
  "nat_of_digits s = foldl (\<lambda>a c. 10 * a + digit_val c) 0 (filter is_digit s)"

text \<open>\<^verbatim>\<open>number ::= [digitpart] "." digitpart | digitpart ["."]\<close>\<close>

definition parse_number :: "string \<Rightarrow> rat option" where
  "parse_number s =
     (let ip = takeWhile (\<lambda>c. c \<noteq> CHR ''.'') s;
          rest = dropWhile (\<lambda>c. c \<noteq> CHR ''.'') s
      in case rest of
           [] \<Rightarrow> if digitpart ip then Some (of_nat (nat_of_digits ip)) else None
         | dot # fp \<Rightarrow>
             if fp = [] then (if digitpart ip then Some (of_nat (nat_of_digits ip)) else None)
             else if (ip = [] \<or> digitpart ip) \<and> digitpart fp
             then Some (of_nat (nat_of_digits ip)
                        + of_nat (nat_of_digits fp) / 10 ^ length (filter is_digit fp))
             else None)"

text \<open>\<^verbatim>\<open>floatnumber ::= number [("e" | "E") [sign] digitpart]\<close>\<close>

definition parse_floatnumber :: "string \<Rightarrow> rat option" where
  "parse_floatnumber s =
     (let is_e = (\<lambda>c. c = CHR ''e'' \<or> c = CHR ''E'');
          m = takeWhile (\<lambda>c. \<not> is_e c) s;
          rest = dropWhile (\<lambda>c. \<not> is_e c) s
      in case rest of
           [] \<Rightarrow> parse_number m
         | e # ex \<Rightarrow>
             (case parse_number m of
                None \<Rightarrow> None
              | Some v \<Rightarrow>
                  (case ex of
                     [] \<Rightarrow> None
                   | sg # ds \<Rightarrow>
                       if sg = CHR ''-'' then
                         (if digitpart ds then Some (v / 10 ^ nat_of_digits ds) else None)
                       else if sg = CHR ''+'' then
                         (if digitpart ds then Some (v * 10 ^ nat_of_digits ds) else None)
                       else
                         (if digitpart ex then Some (v * 10 ^ nat_of_digits ex) else None))))"

text \<open>
  \<^verbatim>\<open>float(s)\<close> for a string: surrounding whitespace is stripped, a sign is optional, and the
  rest is a decimal literal or one of \<^verbatim>\<open>inf\<close>, \<^verbatim>\<open>infinity\<close>, \<^verbatim>\<open>nan\<close> in any case. Characters are
  bytes, so only ASCII digits and ASCII whitespace are recognised.
\<close>

definition float_of_str :: "string \<Rightarrow> error + rat" where
  "float_of_str s0 =
     (let s = strip s0;
          neg = (s \<noteq> [] \<and> hd s = CHR ''-'');
          body = (if s \<noteq> [] \<and> (hd s = CHR ''-'' \<or> hd s = CHR ''+'') then tl s else s)
      in if map ascii_lower body \<in> set [''inf'', ''infinity'', ''nan''] then Inl NonFinite
         else (case parse_floatnumber body of
                 None \<Rightarrow> Inl ValueError
               | Some v \<Rightarrow> Inr (if neg then - v else v)))"

text \<open>\<^verbatim>\<open>float(x)\<close> for a cell value.\<close>

fun py_float :: "cell \<Rightarrow> error + rat" where
  "py_float CNone = Inl TypeError"
| "py_float (CStr s) = float_of_str s"
| "py_float (CInt n) = Inr (of_int n)"
| "py_float (CFloat r) = Inr r"
| "py_float (CBool b) = Inr (if b then 1 else 0)"
| "py_float (CDateTime d) = Inl TypeError"

subsection \<open>The builtin \<^verbatim>\<open>str\<close>\<close>

fun digits_of :: "nat \<Rightarrow> string" where
  "digits_of n =
     (if n < 10 then [char_of (48 + n)] else digits_of (n div 10) @ [char_of (48 + n mod 10)])"

declare digits_of.simps [simp del]

definition str_int :: "int \<Rightarrow> string" where
  "str_int i = (if i < 0 then CHR ''-'' # digits_of (nat (- i)) else digits_of (nat i))"

text \<open>
  The environment of one run: the current date as \<^verbatim>\<open>datetime.now().strftime('%Y-%m-%d')\<close>
  gives it, Python's renderings of floats and datetimes, the fixed-point formatting
  \<^verbatim>\<open>f"{x:.nf}"\<close>, and whether a path can be written.
\<close>

record env =
  today :: string
  repr_float :: "rat \<Rightarrow> string"
  str_datetime :: "datetime \<Rightarrow> string"
  strftime_ymd :: "datetime \<Rightarrow> string"
  fmt :: "nat \<Rightarrow> rat \<Rightarrow> string"
  writable :: "string \<Rightarrow> bool"

fun py_str :: "env \<Rightarrow> cell \<Rightarrow> string" where
  "py_str E CNone = ''None''"
| "py_str E (CStr s) = s"
| "py_str E (CInt n) = str_int n"
| "py_str E (CFloat r) = repr_float E r"
| "py_str E (CBool b) = (if b then ''True'' else ''False'')"
| "py_str E (CDateTime d) = str_datetime E d"

subsection \<open>Rows and invoice records\<close>

text \<open>\<^verbatim>\<open>dict(zip(headers, row))\<close>: a later column wins over an earlier one of the same name.\<close>

definition row_dict :: "cell list \<Rightarrow> cell list \<Rightarrow> (cell \<rightharpoonup> cell)" where
  "row_dict headers row = map_of (rev (zip headers row))"

text \<open>\<^verbatim>\<open>d.get(key, default)\<close> with a string key.\<close>

definition get :: "(cell \<rightharpoonup> cell) \<Rightarrow> string \<Rightarrow> cell \<Rightarrow> cell" where
  "get d k dflt = (case d (CStr k) of None \<Rightarrow> dflt | Some v \<Rightarrow> v)"

record item =
  name :: cell
  quantity :: rat
  price :: rat

record invoice =
  customer_name :: cell
  address :: cell
  phone :: cell
  invoice_number :: string
  date :: cell
  tax_percent :: rat
  discount_percent :: rat
  items :: "item list"

text \<open>The dictionary literal of a new invoice; its entries are evaluated in order.\<close>

definition new_invoice :: "env \<Rightarrow> (cell \<rightharpoonup> cell) \<Rightarrow> error + invoice" where
  "new_invoice E row_data =
     (case py_float (py_or (get row_data ''Tax %'' (CInt 0)) (CInt 0)) of
        Inl e \<Rightarrow> Inl e
      | Inr tax \<Rightarrow>
          (case py_float (py_or (get row_data ''Discount %'' (CInt 0)) (CInt 0)) of
             Inl e \<Rightarrow> Inl e
           | Inr disc \<Rightarrow>
               Inr \<lparr> customer_name = get row_data ''Customer Name'' (CStr []),
                     address = get row_data ''Address'' (CStr []),
                     phone = get row_data ''Phone Number'' (CStr []),
                     invoice_number = py_str E (get row_data ''Invoice Number'' (CStr [])),
                     date = get row_data ''Date'' (CStr (today E)),
                     tax_percent = tax,
                     discount_percent = disc,
                     items = [] \<rparr>))"

definition new_item :: "(cell \<rightharpoonup> cell) \<Rightarrow> error + item" where
  "new_item row_data =
     (case py_float (py_or (get row_data ''Quantity'' (CInt 0)) (CInt 0)) of
        Inl e \<Rightarrow> Inl e
      | Inr q \<Rightarrow>
          (case py_float (py_or (get row_data ''Price'' (CInt 0)) (CInt 0)) of
             Inl e \<Rightarrow> Inl e
           | Inr p \<Rightarrow> Inr \<lparr> name = get row_data ''Item Name'' (CStr []), quantity = q, price = p \<rparr>))"

subsection \<open>The Record Grouper: \<^verbatim>\<open>read_excel_data\<close>\<close>

text \<open>
  The loop state is the list \<^verbatim>\<open>invoices\<close> and the cursor \<^verbatim>\<open>current_invoice\<close>
  (\<open>None\<close> before the first invoice row). One iteration of the loop body:
\<close>

definition start_row :: "cell list \<Rightarrow> cell list \<Rightarrow> bool" where
  "start_row headers row = truthy (get (row_dict headers row) ''Invoice Number'' CNone)"

definition item_row :: "cell list \<Rightarrow> cell list \<Rightarrow> bool" where
  "item_row headers row = truthy (get (row_dict headers row) ''Item Name'' CNone)"

definition add_item :: "(cell \<rightharpoonup> cell) \<Rightarrow> invoice list \<times> invoice option
    \<Rightarrow> error + invoice list \<times> invoice option" where
  "add_item row_data st =
     (case snd st of
        None \<Rightarrow> Inr st
      | Some cur \<Rightarrow>
          if truthy (get row_data ''Item Name'' CNone) then
            (case new_item row_data of
               Inl e \<Rightarrow> Inl e
             | Inr it \<Rightarrow> Inr (fst st, Some (cur\<lparr>items := items cur @ [it]\<rparr>)))
          else Inr st)"

definition row_step :: "env \<Rightarrow> cell list \<Rightarrow> cell list \<Rightarrow> invoice list \<times> invoice option
    \<Rightarrow> error + invoice list \<times> invoice option" where
  "row_step E headers row st =
     (let row_data = row_dict headers row in
      if truthy (get row_data ''Invoice Number'' CNone) then
        (let invoices = (case snd st of None \<Rightarrow> fst st | Some cur \<Rightarrow> fst st @ [cur]) in
         case new_invoice E row_data of
           Inl e \<Rightarrow> Inl e
         | Inr new \<Rightarrow> add_item row_data (invoices, Some new))
      else add_item row_data st)"

fun rows_loop :: "env \<Rightarrow> cell list \<Rightarrow> cell list list \<Rightarrow> invoice list \<times> invoice option
    \<Rightarrow> error + invoice list \<times> invoice option" where
  "rows_loop E headers [] st = Inr st"
| "rows_loop E headers (row # rows) st =
     (case row_step E headers row st of
        Inl e \<Rightarrow> Inl e
      | Inr st' \<Rightarrow> rows_loop E headers rows st')"

definition close_last :: "invoice list \<times> invoice option \<Rightarrow> invoice list" where
  "close_last st = (case snd st of None \<Rightarrow> fst st | Some cur \<Rightarrow> fst st @ [cur])"

text \<open>The sheet is its first row (the headers) and the rows from the second on.\<close>

definition read_excel_data :: "env \<Rightarrow> cell list \<Rightarrow> cell list list \<Rightarrow> error + invoice list" where
  "read_excel_data E headers rows =
     (case rows_loop E headers rows ([], None) of
        Inl e \<Rightarrow> Inl e
      | Inr st \<Rightarrow> Inr (close_last st))"

subsection \<open>Totals\<close>

record totals =
  subtotal :: rat
  discount_amount :: rat
  subtotal_after_discount :: rat
  tax_amount :: rat
  total_amount :: rat

text \<open>The field \<open>total_amount\<close> is the entry \<^verbatim>\<open>'total'\<close> of the returned dictionary.\<close>

definition calculate_totals :: "item list \<Rightarrow> rat \<Rightarrow> rat \<Rightarrow> totals" where
  "calculate_totals its tax_pct discount_pct =
     (let subtotal = foldl (+) 0 (map (\<lambda>it. quantity it * price it) its);
          discount_amount = subtotal * (discount_pct / 100);
          subtotal_after_discount = subtotal - discount_amount;
          tax_amount = subtotal_after_discount * (tax_pct / 100);
          total = subtotal_after_discount + tax_amount
      in \<lparr> subtotal = subtotal,
           discount_amount = discount_amount,
           subtotal_after_discount = subtotal_after_discount,
           tax_amount = tax_amount,
           total_amount = total \<rparr>)"

subsection \<open>Configuration and paths\<close>

record config =
  company_name :: string
  company_address :: string
  company_phone :: string
  company_email :: string
  logo_path :: string
  output_folder :: string
  currency_symbol :: string
  thank_you_note :: string

text \<open>The configuration \<^verbatim>\<open>load_config\<close> uses when there is no configuration file.\<close>

definition default_config :: config where
  "default_config =
     \<lparr> company_name = ''Your Company Name'',
       company_address = ''123 Business Street'' @ [CHR 0x0A] @ ''City, State 12345'',
       company_phone = ''+1 (555) 123-4567'',
       company_email = ''info@yourcompany.com'',
       logo_path = [],
       output_folder = ''generated_invoices'',
       currency_symbol = ''$'',
       thank_you_note = ''Thank you for your business!'' \<rparr>"

text \<open>\<^verbatim>\<open>os.path.join(a, b)\<close> of \<^verbatim>\<open>posixpath\<close>: an absolute second component replaces the first.\<close>

definition path_join :: "string \<Rightarrow> string \<Rightarrow> string" where
  "path_join a b =
     (if b \<noteq> [] \<and> hd b = CHR ''/'' then b
      else if a = [] \<or> last a = CHR ''/'' then a @ b
      else a @ ''/'' @ b)"

text \<open>The file \<^verbatim>\<open>generate_pdf\<close> writes for an invoice number.\<close>

definition pdf_filename :: "config \<Rightarrow> string \<Rightarrow> string" where
  "pdf_filename cfg n = path_join (output_folder cfg) (''Invoice_'' @ n @ ''.pdf'')"

text \<open>The file the route \<^verbatim>\<open>/download/<invoice_number>\<close> of the web application probes.\<close>

definition download_path :: "string \<Rightarrow> string" where
  "download_path n = path_join ''generated_invoices'' (n @ ''.pdf'')"

subsection \<open>The Document Renderer: \<^verbatim>\<open>generate_pdf\<close>\<close>

text \<open>The date shown in the details table.\<close>

definition invoice_date_text :: "env \<Rightarrow> cell \<Rightarrow> string" where
  "invoice_date_text E d =
     (case d of
        CDateTime t \<Rightarrow> strftime_ymd E t
      | _ \<Rightarrow> if truthy d then py_str E d else today E)"

text \<open>The rows of the items table: the header row, then one row for each line item.\<close>

definition items_data :: "env \<Rightarrow> config \<Rightarrow> item list \<Rightarrow> cell list list" where
  "items_data E cfg its =
     [CStr ''Item'', CStr ''Quantity'', CStr ''Price'', CStr ''Total'']
     # map (\<lambda>it. [name it,
                    CStr (fmt E 2 (quantity it)),
                    CStr (currency_symbol cfg @ fmt E 2 (price it)),
                    CStr (currency_symbol cfg @ fmt E 2 (quantity it * price it))]) its"

text \<open>The rows of the totals table, each a label and an amount, appended in this order.\<close>

definition totals_data :: "env \<Rightarrow> config \<Rightarrow> invoice \<Rightarrow> (string \<times> string) list" where
  "totals_data E cfg invoice_data =
     (let t = calculate_totals (items invoice_data) (tax_percent invoice_data)
                (discount_percent invoice_data);
          cur = currency_symbol cfg;
          td0 = [(''Subtotal:'', cur @ fmt E 2 (subtotal t))];
          td1 = (if discount_percent invoice_data > 0
                 then td0 @ [(''Discount ('' @ fmt E 1 (discount_percent invoice_data) @ ''%):'',
                              ''-'' @ cur @ fmt E 2 (discount_amount t)),
                             (''Subtotal after Discount:'',
                              cur @ fmt E 2 (subtotal_after_discount t))]
                 else td0);
          td2 = (if tax_percent invoice_data > 0
                 then td1 @ [(''Tax ('' @ fmt E 1 (tax_percent invoice_data) @ ''%):'',
                              cur @ fmt E 2 (tax_amount t))]
                 else td1)
      in td2 @ [(''Total Amount Due:'', cur @ fmt E 2 (total_amount t))])"

text \<open>
  The document: the detail line, the items table and the totals table of the story. The
  blocks of fixed text around them (company header, recipient, closing note, footer) carry
  no computed value and are left out.
\<close>

record document =
  doc_invoice_number :: string
  doc_date :: string
  doc_items :: "cell list list"
  doc_totals :: "(string \<times> string) list"

type_synonym files = "string \<rightharpoonup> document"

text \<open>
  \<^verbatim>\<open>doc.build(story)\<close> writes the file; it raises when the path cannot be written, and then
  nothing is written.
\<close>

definition generate_pdf :: "env \<Rightarrow> config \<Rightarrow> invoice \<Rightarrow> files \<Rightarrow> error + string \<times> files" where
  "generate_pdf E cfg invoice_data fs =
     (let filename = pdf_filename cfg (invoice_number invoice_data);
          doc = \<lparr> doc_invoice_number = invoice_number invoice_data,
                  doc_date = invoice_date_text E (date invoice_data),
                  doc_items = items_data E cfg (items invoice_data),
                  doc_totals = totals_data E cfg invoice_data \<rparr>
      in if writable E filename then Inr (filename, fs(filename \<mapsto> doc)) else Inl IOError)"

subsection \<open>Batch orchestration: \<^verbatim>\<open>process_excel_file\<close>\<close>



text \<open>\<^verbatim>\<open>download_invoice\<close>: the file sent, if the probed path exists.\<close>

definition download_invoice :: "files \<Rightarrow> string \<Rightarrow> document option" where
  "download_invoice fs n = fs (download_path n)"

subsection \<open>Regions of a table\<close>

text \<open>
  The region of a starting row: the row itself and the rows after it up to the next
  starting row or the end of the table. \<open>regions P rows\<close> lists the regions of the rows
  that satisfy \<open>P\<close>, in table order.
\<close>

fun regions :: "('a \<Rightarrow> bool) \<Rightarrow> 'a list \<Rightarrow> 'a list list" where
  "regions P [] = []"
| "regions P (r # rs) =
     (if P r then (r # takeWhile (\<lambda>x. \<not> P x) rs) # regions P rs else regions P rs)"

text \<open>The fields of a row as the specification reads them: empty or holding a value.\<close>

definition spec_has_invoice_number :: "cell list \<Rightarrow> cell list \<Rightarrow> bool" where
  "spec_has_invoice_number headers row = spec_non_empty (get (row_dict headers row) ''Invoice Number'' CNone)"

definition spec_has_item_name :: "cell list \<Rightarrow> cell list \<Rightarrow> bool" where
  "spec_has_item_name headers row = spec_non_empty (get (row_dict headers row) ''Item Name'' CNone)"

definition item_name_of :: "cell list \<Rightarrow> cell list \<Rightarrow> cell" where
  "item_name_of headers row = get (row_dict headers row) ''Item Name'' (CStr [])"

definition item_names :: "invoice \<Rightarrow> cell list" where
  "item_names i = map name (items i)"

definition item_count :: "invoice \<Rightarrow> nat" where
  "item_count i = length (items i)"

text \<open>The names of the item rows of a row and of a region, in row order.\<close>

definition row_item_names :: "cell list \<Rightarrow> cell list \<Rightarrow> cell list" where
  "row_item_names headers row = (if item_row headers row then [item_name_of headers row] else [])"

definition region_item_names :: "cell list \<Rightarrow> cell list list \<Rightarrow> cell list" where
  "region_item_names headers reg = map (item_name_of headers) (filter (item_row headers) reg)"

definition cursor_list :: "invoice option \<Rightarrow> invoice list" where
  "cursor_list cur = (case cur of None \<Rightarrow> [] | Some c \<Rightarrow> [c])"

text \<open>
  The item counts the specification expects: for each row with a non-empty invoice
  number, the number of rows with a non-empty item name in its region.
\<close>

definition spec_item_counts :: "cell list \<Rightarrow> cell list list \<Rightarrow> nat list" where
  "spec_item_counts headers rows =
     map (\<lambda>reg. length (filter (spec_has_item_name headers) reg))
       (regions (spec_has_invoice_number headers) rows)"

subsection \<open>A sample environment\<close>

text \<open>
  Fixed-point notation with \<open>n\<close> fractional digits, ties rounded to even. Python rounds
  the binary value of the float; for the amounts of the examples below, which a float
  holds exactly, the two agree.
\<close>

definition fmt_fixed :: "nat \<Rightarrow> rat \<Rightarrow> string" where
  "fmt_fixed n r =
     (let x = \<bar>r\<bar> * 10 ^ n;
          lo = \<lfloor>x\<rfloor>;
          scaled = nat (if 1 / 2 < x - of_int lo \<or> (x - of_int lo = 1 / 2 \<and> odd lo)
                        then lo + 1 else lo);
          frac = digits_of (scaled mod 10 ^ n)
      in (if r < 0 then ''-'' else []) @ digits_of (scaled div 10 ^ n)
         @ (if n = 0 then [] else CHR ''.'' # replicate (n - length frac) (CHR ''0'') @ frac))"

text \<open>
  An environment for concrete runs: the date is fixed and every path can be written. No
  example below renders a float or a datetime as an invoice number or a date, so these two
  renderings are constant.
\<close>

definition env0 :: env where
  "env0 = \<lparr> today = ''2024-01-15'',
            repr_float = (\<lambda>r. ''0.0''),
            str_datetime = (\<lambda>d. ''2024-01-01 00:00:00''),
            strftime_ymd = (\<lambda>d. ''2024-01-01''),
            fmt = fmt_fixed,
            writable = (\<lambda>p. True) \<rparr>"

definition sample_invoice :: invoice where
  "sample_invoice =
     \<lparr> customer_name = CStr ''John Smith'', address = CStr ''123 Main St'', phone = CNone,
       invoice_number = ''INV-001'', date = CNone, tax_percent = 10, discount_percent = 10,
       items = [\<lparr>name = CStr ''Laptop Computer'', quantity = 2, price = 100\<rparr>,
                \<lparr>name = CStr ''USB-C Cable'', quantity = 1, price = 50\<rparr>] \<rparr>"

definition no_files :: files where
  "no_files = Map.empty"

subsection \<open>Sample tables\<close>

definition headers_ni :: "cell list" where
  "headers_ni = [CStr ''Invoice Number'', CStr ''Item Name'', CStr ''Quantity'', CStr ''Price'']"

definition rows_two_invoices :: "cell list list" where
  "rows_two_invoices =
     [[CStr ''INV-1'', CStr ''Pen'', CInt 2, CStr ''1.5''],
      [CNone, CStr ''Ink'', CNone, CNone],
      [CInt 7, CNone, CNone, CNone]]"

definition invoices_two :: "invoice list" where
  "invoices_two =
     [\<lparr> customer_name = CStr [], address = CStr [], phone = CStr [], invoice_number = ''INV-1'',
         date = CStr ''2024-01-15'', tax_percent = 0, discount_percent = 0,
         items = [\<lparr>name = CStr ''Pen'', quantity = 2, price = 3 / 2\<rparr>,
                  \<lparr>name = CStr ''Ink'', quantity = 0, price = 0\<rparr>] \<rparr>,
      \<lparr> customer_name = CStr [], address = CStr [], phone = CStr [], invoice_number = ''7'',
         date = CStr ''2024-01-15'', tax_percent = 0, discount_percent = 0, items = [] \<rparr>]"

text \<open>A table whose second row has the number zero as its invoice number.\<close>

definition rows_zero_number :: "cell list list" where
  "rows_zero_number =
     [[CStr ''A'', CStr ''Pen'', CInt 1, CInt 5],
      [CInt 0, CStr ''Ink'', CInt 1, CInt 3]]"

definition invoice_zero_number :: invoice where
  "invoice_zero_number =
     \<lparr> customer_name = CStr [], address = CStr [], phone = CStr [], invoice_number = ''A'',
       date = CStr ''2024-01-15'', tax_percent = 0, discount_percent = 0,
       items = [\<lparr>name = CStr ''Pen'', quantity = 1, price = 5\<rparr>,
                \<lparr>name = CStr ''Ink'', quantity = 1, price = 3\<rparr>] \<rparr>"

definition invoice_no_items :: invoice where
  "invoice_no_items =
     \<lparr> customer_name = CStr ''John Smith'', address = CStr [], phone = CStr [],
       invoice_number = ''INV-1'', date = CStr ''2024-01-15'', tax_percent = 0,
       discount_percent = 0, items = [] \<rparr>"

text \<open>Two item rows without an invoice number; the first has unparseable numbers.\<close>

definition rows_orphan :: "cell list list" where
  "rows_orphan = [[CNone, CStr ''Stapler'', CStr ''abc'', CStr ''n/a''],
                  [CStr [], CStr ''Tape'', CInt 1, CInt 2]]"

subsection \<open>Auxiliary notions for the properties\<close>



text \<open>A row whose quantity is missing and whose price is the empty string.\<close>

definition row_blank_numbers :: "cell \<rightharpoonup> cell" where
  "row_blank_numbers = row_dict headers_ni [CStr ''INV-1'', CStr ''Pen'', CNone, CStr []]"

text \<open>The record of a row with an invoice number and an empty date cell.\<close>

definition invoice_no_date :: invoice where
  "invoice_no_date =
     \<lparr> customer_name = CStr [], address = CStr [], phone = CStr [], invoice_number = ''INV-1'',
       date = CNone, tax_percent = 0, discount_percent = 0, items = [] \<rparr>"





section \<open>Properties\<close>

subsection \<open>Totals\<close>



subsection \<open>Written path and download path\<close>

lemma written_path_differs_from_download_path:
  "pdf_filename cfg n \<noteq> download_path n"
proof
  assume eq: "pdf_filename cfg n = download_path n"
  let ?a = "output_folder cfg"
  have "path_join ?a (''Invoice_'' @ n @ ''.pdf'') = ?a @ (''Invoice_'' @ n @ ''.pdf'')
      \<or> path_join ?a (''Invoice_'' @ n @ ''.pdf'') = (?a @ ''/'') @ (''Invoice_'' @ n @ ''.pdf'')"
    by (simp add: path_join_def)
  then have "\<exists>W. pdf_filename cfg n = W @ ''Invoice_'' @ n @ ''.pdf''"
    unfolding pdf_filename_def by blast
  then obtain W where W: "pdf_filename cfg n = (W @ ''Invoice_'') @ (n @ ''.pdf'')"
    by auto
  have "download_path n = n @ ''.pdf''
      \<or> download_path n = ''generated_invoices/'' @ n @ ''.pdf''"
    by (simp add: download_path_def path_join_def)
  then show False
  proof
    assume "download_path n = n @ ''.pdf''"
    with eq W have "(W @ ''Invoice_'') @ (n @ ''.pdf'') = [] @ (n @ ''.pdf'')"
      by simp
    then have "W @ ''Invoice_'' = []"
      by (simp only: append_same_eq)
    then show False by simp
  next
    assume "download_path n = ''generated_invoices/'' @ n @ ''.pdf''"
    with eq W have "(W @ ''Invoice_'') @ (n @ ''.pdf'') = ''generated_invoices/'' @ (n @ ''.pdf'')"
      by simp
    then have "W @ ''Invoice_'' = ''generated_invoices/''"
      by (simp only: append_same_eq)
    then have "last (W @ ''Invoice_'') = last ''generated_invoices/''"
      by simp
    then show False by simp
  qed
qed

text \<open>
  C10. For every invoice number, the path the renderer writes (the output folder joined
  with \<^verbatim>\<open>Invoice_<n>.pdf\<close>) differs from the path the download route probes
  (\<^verbatim>\<open>generated_invoices\<close> joined with \<^verbatim>\<open><n>.pdf\<close>). Hence generating the document of an
  invoice does not change what a download by its number finds: the round trip never
  reaches the fresh document.
\<close>

theorem download_misses_generated_file:
  "pdf_filename cfg n \<noteq> download_path n
   \<and> (generate_pdf E cfg i fs = Inr (filename, fs') \<longrightarrow>
        filename = pdf_filename cfg (invoice_number i)
        \<and> filename \<noteq> download_path (invoice_number i)
        \<and> download_invoice fs' (invoice_number i) = download_invoice fs (invoice_number i))"
  using written_path_differs_from_download_path [of cfg n]
    written_path_differs_from_download_path [of cfg "invoice_number i"]
  by (auto simp: generate_pdf_def Let_def download_invoice_def split: if_splits)

theorem download_misses_generated_file_witness:
  "generate_pdf env0 default_config sample_invoice no_files
     = Inr (''generated_invoices/Invoice_INV-001.pdf'',
            snd (projr (generate_pdf env0 default_config sample_invoice no_files)))
   \<and> download_path ''INV-001'' = ''generated_invoices/INV-001.pdf''
   \<and> download_invoice (snd (projr (generate_pdf env0 default_config sample_invoice no_files)))
        ''INV-001'' = None"
proof -
  have g: "generate_pdf env0 default_config sample_invoice no_files
     = Inr (''generated_invoices/Invoice_INV-001.pdf'',
            snd (projr (generate_pdf env0 default_config sample_invoice no_files)))"
    by (simp add: generate_pdf_def Let_def env0_def default_config_def sample_invoice_def
        pdf_filename_def path_join_def)
  have n: "invoice_number sample_invoice = ''INV-001''"
    by (simp add: sample_invoice_def)
  have d: "download_invoice no_files ''INV-001'' = None"
    by (simp add: download_invoice_def no_files_def)
  have p: "download_path ''INV-001'' = ''generated_invoices/INV-001.pdf''"
    by (simp add: download_path_def path_join_def)
  from download_misses_generated_file [of default_config "''INV-001''" env0 sample_invoice
      no_files "''generated_invoices/Invoice_INV-001.pdf''"
      "snd (projr (generate_pdf env0 default_config sample_invoice no_files))"] g n d p
  show ?thesis by simp
qed

subsection \<open>The Record Grouper\<close>

lemma close_last_eq: "close_last (invs, cur) = invs @ cursor_list cur"
  by (simp add: close_last_def cursor_list_def split: option.splits)

lemma new_item_name: "new_item d = Inr it \<Longrightarrow> name it = get d ''Item Name'' (CStr [])"
  by (auto simp: new_item_def split: sum.splits)

lemma new_invoice_items: "new_invoice E d = Inr i \<Longrightarrow> items i = []"
  by (auto simp: new_invoice_def split: sum.splits)

lemma add_item_None: "add_item d (invs, None) = Inr (invs, None)"
  by (simp add: add_item_def)

lemma add_item_Some:
  assumes "add_item (row_dict hs r) (invs, Some c) = Inr st'"
  shows "\<exists>c'. st' = (invs, Some c') \<and> item_names c' = item_names c @ row_item_names hs r"
  using assms
  by (auto simp: add_item_def item_names_def row_item_names_def item_row_def item_name_of_def
      new_item_name split: if_splits sum.splits)

text \<open>A row with an invoice number closes the open record and opens a new one.\<close>

lemma row_step_start:
  assumes "start_row hs r" and "row_step E hs r (invs, cur) = Inr st'"
  shows "\<exists>c'. st' = (invs @ cursor_list cur, Some c') \<and> item_names c' = row_item_names hs r"
proof -
  from assms obtain new where n: "new_invoice E (row_dict hs r) = Inr new"
    and a: "add_item (row_dict hs r) (invs @ cursor_list cur, Some new) = Inr st'"
    by (auto simp: row_step_def start_row_def Let_def cursor_list_def
        split: sum.splits option.splits)
  from add_item_Some [OF a] new_invoice_items [OF n] show ?thesis
    by (auto simp: item_names_def)
qed

text \<open>A row without one leaves the closed records alone.\<close>

lemma row_step_cont_None:
  assumes "\<not> start_row hs r"
  shows "row_step E hs r (invs, None) = Inr (invs, None)"
  using assms by (simp add: row_step_def start_row_def Let_def add_item_None)

lemma row_step_cont_Some:
  assumes "\<not> start_row hs r" and "row_step E hs r (invs, Some c) = Inr st'"
  shows "\<exists>c'. st' = (invs, Some c') \<and> item_names c' = item_names c @ row_item_names hs r"
  using assms add_item_Some [of hs r invs c st']
  by (simp add: row_step_def start_row_def Let_def)

lemma region_item_names_Cons:
  "region_item_names hs (r # rs) = row_item_names hs r @ region_item_names hs rs"
  by (simp add: region_item_names_def row_item_names_def)

lemma region_item_names_Nil: "region_item_names hs [] = []"
  by (simp add: region_item_names_def)

text \<open>
  The invariant of the loop: the records closed so far keep their items, the open record
  receives the item rows up to the next starting row, and every later starting row
  contributes the item rows of its region.
\<close>

lemma rows_loop_item_names:
  "rows_loop E hs rows (invs, cur) = Inr st' \<Longrightarrow>
   map item_names (close_last st') =
     map item_names invs
     @ (case cur of None \<Rightarrow> []
        | Some c \<Rightarrow> [item_names c @ region_item_names hs (takeWhile (\<lambda>x. \<not> start_row hs x) rows)])
     @ map (region_item_names hs) (regions (start_row hs) rows)"
proof (induction rows arbitrary: invs cur st')
  case Nil
  then show ?case
    by (auto simp: close_last_eq cursor_list_def region_item_names_Nil split: option.splits)
next
  case (Cons r rows)
  from Cons.prems obtain st1 where s1: "row_step E hs r (invs, cur) = Inr st1"
    and l: "rows_loop E hs rows st1 = Inr st'"
    by (auto split: sum.splits)
  show ?case
  proof (cases "start_row hs r")
    case True
    from row_step_start [OF True s1] obtain c' where
      st1: "st1 = (invs @ cursor_list cur, Some c')" and c': "item_names c' = row_item_names hs r"
      by auto
    from Cons.IH [OF l [unfolded st1]] True c' show ?thesis
      by (simp add: cursor_list_def region_item_names_Cons region_item_names_Nil
          split: option.splits)
  next
    case False
    show ?thesis
    proof (cases cur)
      case None
      with False s1 have "st1 = (invs, None)"
        by (simp add: row_step_cont_None)
      with Cons.IH [of invs None st'] l False None show ?thesis
        by simp
    next
      case (Some c)
      with row_step_cont_Some [OF False] s1 obtain c' where
        st1: "st1 = (invs, Some c')"
        and c': "item_names c' = item_names c @ row_item_names hs r"
        by blast
      from Cons.IH [OF l [unfolded st1]] False Some c' show ?thesis
        by (simp add: region_item_names_Cons region_item_names_Nil)
    qed
  qed
qed

lemma read_excel_data_item_names:
  assumes "read_excel_data E hs rows = Inr invs"
  shows "map item_names invs = map (region_item_names hs) (regions (start_row hs) rows)"
proof -
  from assms obtain st where l: "rows_loop E hs rows ([], None) = Inr st"
    and i: "invs = close_last st"
    by (auto simp: read_excel_data_def split: sum.splits)
  from rows_loop_item_names [OF l] i show ?thesis
    by simp
qed

lemma length_regions: "length (regions P rows) = length (filter P rows)"
  by (induction rows) simp_all

lemma regions_nonempty:
  "reg \<in> set (regions P rows) \<Longrightarrow> reg \<noteq> [] \<and> P (hd reg)"
  by (induction rows) (auto split: if_splits)

lemma regions_subset:
  "reg \<in> set (regions P rows) \<Longrightarrow> set reg \<subseteq> set rows"
  by (induction rows) (auto split: if_splits dest: set_takeWhileD)

lemma truthy_spec_non_empty: "truthy c \<Longrightarrow> spec_non_empty c"
  by (cases c) simp_all

lemma start_row_spec_has_invoice_number: "start_row hs r \<Longrightarrow> spec_has_invoice_number hs r"
  by (simp add: start_row_def spec_has_invoice_number_def truthy_spec_non_empty)

lemma rows_loop_append:
  "rows_loop E hs (a @ b) st =
     (case rows_loop E hs a st of Inl e \<Rightarrow> Inl e | Inr st' \<Rightarrow> rows_loop E hs b st')"
  by (induction a arbitrary: st) (simp_all split: sum.splits)

lemma rows_loop_orphans:
  "\<forall>r\<in>set pre. \<not> start_row hs r \<Longrightarrow> rows_loop E hs pre (invs, None) = Inr (invs, None)"
  by (induction pre) (simp_all add: row_step_cont_None)

lemma read_two_invoices: "read_excel_data env0 headers_ni rows_two_invoices = Inr invoices_two"
  by code_simp

lemma read_zero_number:
  "read_excel_data env0 headers_ni rows_zero_number = Inr [invoice_zero_number]"
  by (simp add: read_excel_data_def row_step_def add_item_def row_dict_def get_def headers_ni_def
      close_last_def rows_zero_number_def invoice_zero_number_def new_invoice_def new_item_def
      py_or_def env0_def)

text \<open>
  C2, as amended. When the grouper returns, the number of records equals the number of
  rows whose invoice number is truthy: not empty, and not the number zero or \<^verbatim>\<open>False\<close>.
\<close>

theorem record_count_truthy:
  assumes "read_excel_data E hs rows = Inr invs"
  shows "length invs = length (filter (start_row hs) rows)"
proof -
  have "length (map item_names invs)
      = length (map (region_item_names hs) (regions (start_row hs) rows))"
    using read_excel_data_item_names [OF assms] by simp
  then show ?thesis
    by (simp add: length_regions)
qed

theorem record_count_truthy_witness:
  "read_excel_data env0 headers_ni rows_two_invoices = Inr invoices_two
   \<and> length invoices_two = 2
   \<and> length (filter (start_row headers_ni) rows_two_invoices) = 2"
  using record_count_truthy [OF read_two_invoices] read_two_invoices
  by (simp add: invoices_two_def)

text \<open>
  C2 as stated fails: a row whose invoice number is the number 0 has a non-empty invoice
  number, and the grouper opens no record for it.
\<close>

theorem record_count_counterexample:
  "read_excel_data env0 headers_ni [[CInt 0, CStr ''Pen'', CInt 1, CInt 5]] = Inr []
   \<and> length (filter (spec_has_invoice_number headers_ni) [[CInt 0, CStr ''Pen'', CInt 1, CInt 5]]) = 1"
  by (simp add: read_excel_data_def row_step_def add_item_def row_dict_def get_def headers_ni_def
      spec_has_invoice_number_def close_last_def)

lemma item_count_names: "item_count i = length (item_names i)"
  by (simp add: item_count_def item_names_def)

lemma length_region_item_names:
  "length (region_item_names hs reg) = length (filter (item_row hs) reg)"
  by (simp add: region_item_names_def)

text \<open>
  C6, as amended. When the grouper returns, the records correspond one to one, in order,
  to the regions of the rows with a truthy invoice number; the items of a record are the
  rows of its region with a truthy item name, in row order, so their number is the number
  of those rows.
\<close>

theorem items_follow_region_rows:
  assumes "read_excel_data E hs rows = Inr invs"
  shows "map item_names invs = map (region_item_names hs) (regions (start_row hs) rows)
       \<and> map item_count invs
           = map (\<lambda>reg. length (filter (item_row hs) reg)) (regions (start_row hs) rows)"
proof -
  have n: "map item_names invs = map (region_item_names hs) (regions (start_row hs) rows)"
    by (rule read_excel_data_item_names [OF assms])
  have "map item_count invs = map length (map item_names invs)"
    by (simp add: item_count_names)
  also have "\<dots> = map length (map (region_item_names hs) (regions (start_row hs) rows))"
    by (simp only: n)
  also have "\<dots> = map (\<lambda>reg. length (filter (item_row hs) reg)) (regions (start_row hs) rows)"
    by (simp add: length_region_item_names)
  finally show ?thesis
    using n by simp
qed

theorem items_follow_region_rows_witness:
  "read_excel_data env0 headers_ni rows_two_invoices = Inr invoices_two
   \<and> map item_names invoices_two
       = map (region_item_names headers_ni) (regions (start_row headers_ni) rows_two_invoices)
   \<and> map item_names invoices_two = [[CStr ''Pen'', CStr ''Ink''], []]
   \<and> map item_count invoices_two = [2, 0]"
proof -
  have "map item_names invoices_two = [[CStr ''Pen'', CStr ''Ink''], []]"
    and "map item_count invoices_two = [2, 0]"
    by (simp_all add: invoices_two_def item_names_def item_count_def)
  with items_follow_region_rows [OF read_two_invoices] read_two_invoices
  show ?thesis by blast
qed

text \<open>
  C6 as stated fails: the row with invoice number 0 ends the region of the first row as
  the specification draws it, but the grouper keeps adding to the first record, which
  gets two items where its region has one item row.
\<close>

theorem items_per_region_counterexample:
  "read_excel_data env0 headers_ni rows_zero_number = Inr [invoice_zero_number]
   \<and> map item_count [invoice_zero_number] = [2]
   \<and> spec_item_counts headers_ni rows_zero_number = [1, 1]"
  by (simp add: read_excel_data_def row_step_def add_item_def row_dict_def get_def headers_ni_def
      spec_has_invoice_number_def spec_has_item_name_def close_last_def rows_zero_number_def
      invoice_zero_number_def new_invoice_def new_item_def py_or_def env0_def item_count_def
      spec_item_counts_def)

text \<open>
  C8, as amended. A record has no items exactly when no row of its region has a truthy
  item name; when every starting row carries an item name, every record has items.
\<close>

theorem items_empty_iff_region_has_no_item:
  assumes "read_excel_data E hs rows = Inr invs"
  shows "(k < length invs \<longrightarrow>
            (items (invs ! k) = []
              \<longleftrightarrow> filter (item_row hs) (regions (start_row hs) rows ! k) = []))
       \<and> ((\<forall>r\<in>set rows. start_row hs r \<longrightarrow> item_row hs r) \<longrightarrow> (\<forall>i\<in>set invs. items i \<noteq> []))"
proof -
  have n: "map item_names invs = map (region_item_names hs) (regions (start_row hs) rows)"
    by (rule read_excel_data_item_names [OF assms])
  then have len: "length invs = length (regions (start_row hs) rows)"
    by (metis length_map)
  have nth: "item_names (invs ! j) = region_item_names hs (regions (start_row hs) rows ! j)"
    if "j < length invs" for j
    using n that len by (metis nth_map)
  have a: "k < length invs \<longrightarrow>
      (items (invs ! k) = [] \<longleftrightarrow> filter (item_row hs) (regions (start_row hs) rows ! k) = [])"
  proof
    assume k: "k < length invs"
    from nth [OF k]
    have "length (items (invs ! k))
        = length (filter (item_row hs) (regions (start_row hs) rows ! k))"
      by (metis item_names_def region_item_names_def length_map)
    then show "items (invs ! k) = []
        \<longleftrightarrow> filter (item_row hs) (regions (start_row hs) rows ! k) = []"
      by (metis length_0_conv)
  qed
  have b: "(\<forall>r\<in>set rows. start_row hs r \<longrightarrow> item_row hs r) \<longrightarrow> (\<forall>i\<in>set invs. items i \<noteq> [])"
  proof (intro impI ballI)
    fix i
    assume all: "\<forall>r\<in>set rows. start_row hs r \<longrightarrow> item_row hs r" and i: "i \<in> set invs"
    from i obtain j where j: "j < length invs" and ij: "invs ! j = i"
      by (auto simp: in_set_conv_nth)
    let ?reg = "regions (start_row hs) rows ! j"
    from j len have mem: "?reg \<in> set (regions (start_row hs) rows)"
      by simp
    from regions_nonempty [OF mem] have ne: "?reg \<noteq> []" and st: "start_row hs (hd ?reg)"
      by auto
    from regions_subset [OF mem] ne have "hd ?reg \<in> set rows"
      by (meson hd_in_set subsetD)
    with all st have "item_row hs (hd ?reg)"
      by blast
    with ne have "filter (item_row hs) ?reg \<noteq> []"
      by (cases ?reg) auto
    then have "region_item_names hs ?reg \<noteq> []"
      by (simp add: region_item_names_def)
    with nth [OF j] ij show "items i \<noteq> []"
      by (auto simp: item_names_def)
  qed
  from a b show ?thesis
    by blast
qed

theorem items_empty_iff_region_has_no_item_witness:
  "read_excel_data env0 headers_ni rows_zero_number = Inr [invoice_zero_number]
   \<and> items ([invoice_zero_number] ! 0) \<noteq> []
   \<and> filter (item_row headers_ni) (regions (start_row headers_ni) rows_zero_number ! 0) \<noteq> []
   \<and> list_all (\<lambda>i. items i \<noteq> []) [invoice_zero_number]"
proof -
  have all: "\<forall>r\<in>set rows_zero_number. start_row headers_ni r \<longrightarrow> item_row headers_ni r"
    by (simp add: rows_zero_number_def start_row_def item_row_def headers_ni_def row_dict_def
        get_def)
  have ne: "items ([invoice_zero_number] ! 0) \<noteq> []"
    by (simp add: invoice_zero_number_def)
  from items_empty_iff_region_has_no_item [OF read_zero_number, of 0] all ne read_zero_number
  show ?thesis by simp
qed

text \<open>
  C8 as stated fails: a single row with an invoice number and no item name gives a record
  without items.
\<close>

theorem items_non_empty_counterexample:
  "read_excel_data env0 [CStr ''Invoice Number'', CStr ''Customer Name'', CStr ''Item Name'']
     [[CStr ''INV-1'', CStr ''John Smith'', CNone]] = Inr [invoice_no_items]
   \<and> items invoice_no_items = []"
  by (simp add: read_excel_data_def row_step_def add_item_def row_dict_def get_def
      close_last_def invoice_no_items_def new_invoice_def py_or_def env0_def)

text \<open>
  C9. Rows with a blank invoice number that come before every row with an invoice number
  are dropped: the loop passes them without failing and without opening a record, whatever
  their other fields hold, and the grouper returns what it returns for the table without
  them, so no record has an item built from such a row.
\<close>

theorem orphan_rows_dropped:
  assumes "\<forall>r\<in>set pre. \<not> spec_has_invoice_number hs r"
  shows "rows_loop E hs pre ([], None) = Inr ([], None)
       \<and> read_excel_data E hs (pre @ rest) = read_excel_data E hs rest"
proof -
  from assms have "\<forall>r\<in>set pre. \<not> start_row hs r"
    using start_row_spec_has_invoice_number by blast
  then have "rows_loop E hs pre ([], None) = Inr ([], None)"
    by (rule rows_loop_orphans)
  then show ?thesis
    by (simp add: read_excel_data_def rows_loop_append)
qed

theorem orphan_rows_dropped_witness:
  "spec_has_item_name headers_ni (rows_orphan ! 0)
   \<and> \<not> spec_has_invoice_number headers_ni (rows_orphan ! 0)
   \<and> rows_loop env0 headers_ni rows_orphan ([], None) = Inr ([], None)
   \<and> read_excel_data env0 headers_ni (rows_orphan @ rows_two_invoices) = Inr invoices_two"
proof -
  have h: "\<forall>r\<in>set rows_orphan. \<not> spec_has_invoice_number headers_ni r"
    by (simp add: rows_orphan_def spec_has_invoice_number_def headers_ni_def row_dict_def get_def)
  have i: "spec_has_item_name headers_ni (rows_orphan ! 0)"
    and n: "\<not> spec_has_invoice_number headers_ni (rows_orphan ! 0)"
    by (simp_all add: rows_orphan_def spec_has_item_name_def spec_has_invoice_number_def headers_ni_def
        row_dict_def get_def)
  from orphan_rows_dropped [OF h, of env0 rows_two_invoices] read_two_invoices i n
  show ?thesis by simp
qed

subsection \<open>The totals block\<close>




subsection \<open>Numeric fields\<close>

lemma coerce_empty:
  "\<not> spec_non_empty (get d k CNone) \<Longrightarrow> py_float (py_or (get d k (CInt 0)) (CInt 0)) = Inr 0"
  by (cases "d (CStr k)"; cases "get d k CNone") (auto simp: get_def py_or_def)

text \<open>
  C4, as amended. An empty or missing numeric field (\<^verbatim>\<open>Quantity\<close>, \<^verbatim>\<open>Price\<close>, \<^verbatim>\<open>Tax %\<close>,
  \<^verbatim>\<open>Discount %\<close>) is coerced to 0: with both fields of an item, or of an invoice header,
  empty or missing the record is built with zeros, and whenever a record is built each
  empty or missing field of it is 0.
\<close>

theorem empty_numeric_fields_coerced:
  "(\<not> spec_non_empty (get d ''Tax %'' CNone) \<and> \<not> spec_non_empty (get d ''Discount %'' CNone) \<longrightarrow>
      (\<exists>i. new_invoice E d = Inr i \<and> tax_percent i = 0 \<and> discount_percent i = 0))
   \<and> (\<not> spec_non_empty (get d ''Quantity'' CNone) \<and> \<not> spec_non_empty (get d ''Price'' CNone) \<longrightarrow>
      (\<exists>it. new_item d = Inr it \<and> quantity it = 0 \<and> price it = 0))
   \<and> (new_invoice E d = Inr i \<longrightarrow>
        (\<not> spec_non_empty (get d ''Tax %'' CNone) \<longrightarrow> tax_percent i = 0)
        \<and> (\<not> spec_non_empty (get d ''Discount %'' CNone) \<longrightarrow> discount_percent i = 0))
   \<and> (new_item d = Inr it \<longrightarrow>
        (\<not> spec_non_empty (get d ''Quantity'' CNone) \<longrightarrow> quantity it = 0)
        \<and> (\<not> spec_non_empty (get d ''Price'' CNone) \<longrightarrow> price it = 0))"
proof -
  have 1: "\<not> spec_non_empty (get d ''Tax %'' CNone) \<and> \<not> spec_non_empty (get d ''Discount %'' CNone) \<longrightarrow>
      (\<exists>i. new_invoice E d = Inr i \<and> tax_percent i = 0 \<and> discount_percent i = 0)"
    by (simp add: new_invoice_def coerce_empty)
  have 2: "\<not> spec_non_empty (get d ''Quantity'' CNone) \<and> \<not> spec_non_empty (get d ''Price'' CNone) \<longrightarrow>
      (\<exists>it. new_item d = Inr it \<and> quantity it = 0 \<and> price it = 0)"
    by (simp add: new_item_def coerce_empty)
  have 3: "new_invoice E d = Inr i \<longrightarrow>
        (\<not> spec_non_empty (get d ''Tax %'' CNone) \<longrightarrow> tax_percent i = 0)
        \<and> (\<not> spec_non_empty (get d ''Discount %'' CNone) \<longrightarrow> discount_percent i = 0)"
    using coerce_empty [of d "''Tax %''"] coerce_empty [of d "''Discount %''"]
    by (auto simp: new_invoice_def split: sum.splits)
  have 4: "new_item d = Inr it \<longrightarrow>
        (\<not> spec_non_empty (get d ''Quantity'' CNone) \<longrightarrow> quantity it = 0)
        \<and> (\<not> spec_non_empty (get d ''Price'' CNone) \<longrightarrow> price it = 0)"
    using coerce_empty [of d "''Quantity''"] coerce_empty [of d "''Price''"]
    by (auto simp: new_item_def split: sum.splits)
  from 1 2 3 4 show ?thesis by blast
qed

theorem empty_numeric_fields_coerced_witness:
  "get row_blank_numbers ''Quantity'' CNone = CNone
   \<and> get row_blank_numbers ''Price'' CNone = CStr []
   \<and> get row_blank_numbers ''Tax %'' CNone = CNone
   \<and> get row_blank_numbers ''Discount %'' CNone = CNone
   \<and> new_item row_blank_numbers = Inr \<lparr>name = CStr ''Pen'', quantity = 0, price = 0\<rparr>
   \<and> tax_percent (projr (new_invoice env0 row_blank_numbers)) = 0
   \<and> discount_percent (projr (new_invoice env0 row_blank_numbers)) = 0"
proof -
  have g: "get row_blank_numbers ''Quantity'' CNone = CNone"
    "get row_blank_numbers ''Price'' CNone = CStr []"
    "get row_blank_numbers ''Tax %'' CNone = CNone"
    "get row_blank_numbers ''Discount %'' CNone = CNone"
    by (simp_all add: row_blank_numbers_def row_dict_def headers_ni_def get_def)
  have n: "name (projr (new_item row_blank_numbers)) = CStr ''Pen''"
    by (simp add: new_item_def row_blank_numbers_def row_dict_def headers_ni_def get_def py_or_def)
  from empty_numeric_fields_coerced [of row_blank_numbers env0
      "projr (new_invoice env0 row_blank_numbers)" "projr (new_item row_blank_numbers)"] g n
  show ?thesis
    by auto
qed

text \<open>
  C4 as stated fails for a non-numeric string: \<^verbatim>\<open>float('abc')\<close> raises \<^verbatim>\<open>ValueError\<close>, which
  nothing catches, and the grouper fails.
\<close>

theorem non_numeric_string_counterexample:
  "read_excel_data env0 headers_ni [[CStr ''INV-1'', CStr ''Pen'', CStr ''abc'', CInt 5]]
     = Inl ValueError"
  by (simp add: read_excel_data_def row_step_def add_item_def row_dict_def get_def headers_ni_def
      new_invoice_def new_item_def py_or_def env0_def float_of_str_def strip_def is_space_def
      ascii_lower_def parse_floatnumber_def parse_number_def is_digit_def)

subsection \<open>The invoice date\<close>

text \<open>
  C7, as amended. A new record takes the current date only when the row has no
  \<^verbatim>\<open>Date\<close> field at all (the table has no such column); when the field is there, the
  record keeps its value, an empty cell included. The renderer shows the current date for
  every record whose date is empty, so the document of a row without a date carries the
  current date.
\<close>

theorem date_fallback:
  "(new_invoice E d = Inr i \<longrightarrow>
      (d (CStr ''Date'') = None \<longrightarrow> date i = CStr (today E))
      \<and> (d (CStr ''Date'') = Some c \<longrightarrow> date i = c))
   \<and> (\<not> truthy (date i) \<longrightarrow> invoice_date_text E (date i) = today E)
   \<and> (generate_pdf E cfg i fs = Inr (filename, fs') \<and> \<not> truthy (date i) \<longrightarrow>
        map_option doc_date (fs' filename) = Some (today E))"
proof -
  have 1: "new_invoice E d = Inr i \<longrightarrow>
      (d (CStr ''Date'') = None \<longrightarrow> date i = CStr (today E))
      \<and> (d (CStr ''Date'') = Some c \<longrightarrow> date i = c)"
    by (auto simp: new_invoice_def get_def split: sum.splits)
  have 2: "\<not> truthy (date i) \<longrightarrow> invoice_date_text E (date i) = today E"
    by (cases "date i") (simp_all add: invoice_date_text_def)
  have 3: "generate_pdf E cfg i fs = Inr (filename, fs') \<and> \<not> truthy (date i) \<longrightarrow>
        map_option doc_date (fs' filename) = Some (today E)"
    using 2 by (auto simp: generate_pdf_def Let_def split: if_splits)
  from 1 2 3 show ?thesis by blast
qed

theorem date_fallback_witness:
  "new_invoice env0 (row_dict [CStr ''Invoice Number'', CStr ''Date''] [CStr ''INV-1'', CNone])
     = Inr invoice_no_date
   \<and> new_invoice env0 (row_dict [CStr ''Invoice Number''] [CStr ''INV-1''])
     = Inr (invoice_no_date\<lparr>date := CStr ''2024-01-15''\<rparr>)
   \<and> date invoice_no_date = CNone
   \<and> invoice_date_text env0 (date invoice_no_date) = ''2024-01-15''
   \<and> map_option doc_date
        (snd (projr (generate_pdf env0 default_config invoice_no_date no_files))
           ''generated_invoices/Invoice_INV-1.pdf'') = Some ''2024-01-15''"
proof -
  let ?d1 = "row_dict [CStr ''Invoice Number'', CStr ''Date''] [CStr ''INV-1'', CNone]"
  let ?d2 = "row_dict [CStr ''Invoice Number''] [CStr ''INV-1'']"
  have n1: "new_invoice env0 ?d1 = Inr invoice_no_date"
    and n2: "new_invoice env0 ?d2 = Inr (invoice_no_date\<lparr>date := CStr ''2024-01-15''\<rparr>)"
    by (simp_all add: new_invoice_def row_dict_def get_def py_or_def invoice_no_date_def env0_def)
  have k1: "?d1 (CStr ''Date'') = Some CNone" and k2: "?d2 (CStr ''Date'') = None"
    by (simp_all add: row_dict_def)
  have g: "generate_pdf env0 default_config invoice_no_date no_files
      = Inr (''generated_invoices/Invoice_INV-1.pdf'',
             snd (projr (generate_pdf env0 default_config invoice_no_date no_files)))"
    by (simp add: generate_pdf_def Let_def env0_def default_config_def invoice_no_date_def
        pdf_filename_def path_join_def)
  have f: "\<not> truthy (date invoice_no_date)" and t: "today env0 = ''2024-01-15''"
    by (simp_all add: invoice_no_date_def env0_def)
  have c: "date invoice_no_date = CNone"
    by (simp add: invoice_no_date_def)
  note df = date_fallback [of env0 ?d1 invoice_no_date CNone default_config no_files
      "''generated_invoices/Invoice_INV-1.pdf''"
      "snd (projr (generate_pdf env0 default_config invoice_no_date no_files))"]
  from df f have a: "invoice_date_text env0 (date invoice_no_date) = today env0"
    by blast
  from df g f have b: "map_option doc_date
        (snd (projr (generate_pdf env0 default_config invoice_no_date no_files))
           ''generated_invoices/Invoice_INV-1.pdf'') = Some (today env0)"
    by blast
  from n1 n2 c a b show ?thesis
    unfolding t by blast
qed

text \<open>
  C7 as stated fails for the record: with a \<^verbatim>\<open>Date\<close> column and an empty cell, the date of
  the record is \<^verbatim>\<open>None\<close>, not the current date.
\<close>

theorem date_default_counterexample:
  "read_excel_data env0 [CStr ''Invoice Number'', CStr ''Date''] [[CStr ''INV-1'', CNone]]
     = Inr [invoice_no_date]
   \<and> date invoice_no_date \<noteq> CStr (today env0)"
  by (simp add: read_excel_data_def row_step_def add_item_def row_dict_def get_def
      close_last_def invoice_no_date_def new_invoice_def py_or_def env0_def)

subsection \<open>Batch processing\<close>









end
